theory Spec2Isabelle
  imports Main "HOL-Library.AList" "HOL-Library.Multiset"
begin

section \<open>Python values\<close>

text \<open>
  The handlers of \<^verbatim>\<open>flaskr/__init__.py\<close> read a parsed JSON body and hand a Python
  dictionary to \<^verbatim>\<open>jsonify\<close>. Both are values of one datatype. A dictionary is an
  association list in insertion order with distinct keys; its keys are strings in a parsed
  body and may be integers in a dictionary the handlers build. JSON numbers with a
  fraction (Python floats) are not part of the datatype.
\<close>

datatype pyval =
    PNone
  | PBool bool
  | PInt int
  | PStr string
  | PList "pyval list"
  | PDict "(pyval \<times> pyval) list"

text \<open>Python's truth test, as used by \<^verbatim>\<open>if x\<close> and \<^verbatim>\<open>not x\<close>.\<close>

fun truthy :: "pyval \<Rightarrow> bool" where
  "truthy PNone = False"
| "truthy (PBool b) = b"
| "truthy (PInt i) = (i \<noteq> 0)"
| "truthy (PStr s) = (s \<noteq> [])"
| "truthy (PList xs) = (xs \<noteq> [])"
| "truthy (PDict kvs) = (kvs \<noteq> [])"

text \<open>
  The exceptions the handlers can raise without catching them (\<open>ProgrammingError\<close> is
  the ORM's exception for a statement the database rejects), and the ways a handler
  can end other than by returning: \<^verbatim>\<open>abort(code)\<close> or
  \<^verbatim>\<open>abort(code, description)\<close>, an uncaught exception, and \<open>Unmodelled\<close> for
  a request whose outcome is decided inside the ORM or the database driver on a value
  the handler passes on unchecked (a search term that is not text, previous questions
  that are not a list of integers, a category id that is a list or a dictionary).
\<close>

datatype exn =
  AttributeError | TypeError | KeyError | ValueError | IndexError | ProgrammingError

datatype failure =
    Abort int "pyval option"
  | Uncaught exn
  | Unmodelled

text \<open>
  \<^verbatim>\<open>d.get(key, None)\<close> on a dictionary. (On any other value the attribute
  lookup raises AttributeError; the handlers below say so where they call it.)
\<close>

definition dict_get :: "(pyval \<times> pyval) list \<Rightarrow> string \<Rightarrow> pyval" where
  "dict_get kvs key = (case map_of kvs (PStr key) of None \<Rightarrow> PNone | Some v \<Rightarrow> v)"

text \<open>
  \<^verbatim>\<open>x[key]\<close> with a string key: a dictionary yields the entry or raises KeyError;
  text and lists want integer indices and the remaining values cannot be subscripted,
  which is a TypeError in each case.
\<close>

definition py_getitem :: "pyval \<Rightarrow> string \<Rightarrow> exn + pyval" where
  "py_getitem x key =
     (case x of
        PDict kvs \<Rightarrow> (case map_of kvs (PStr key) of None \<Rightarrow> Inl KeyError | Some v \<Rightarrow> Inr v)
      | _ \<Rightarrow> Inl TypeError)"

text \<open>\<^verbatim>\<open>xs[i]\<close> with an integer index: negative indices count from the end.\<close>

definition py_index :: "'a list \<Rightarrow> int \<Rightarrow> exn + 'a" where
  "py_index xs i =
     (let n = int (length xs); j = (if i < 0 then i + n else i)
      in if 0 \<le> j \<and> j < n then Inr (xs ! nat j) else Inl IndexError)"

text \<open>
  \<^verbatim>\<open>xs[start:end]\<close>: a negative bound counts from the end, and both bounds are
  clamped to the list; a slice never raises.
\<close>

definition slice_bound :: "nat \<Rightarrow> int \<Rightarrow> nat" where
  "slice_bound n i = (if i < 0 then nat (max 0 (i + int n)) else min (nat i) n)"

definition py_slice :: "'a list \<Rightarrow> int \<Rightarrow> int \<Rightarrow> 'a list" where
  "py_slice xs start end' =
     (let s = slice_bound (length xs) start; e = slice_bound (length xs) end'
      in take (e - s) (drop s xs))"

text \<open>\<^verbatim>\<open>x != 0\<close>: among the values of the datatype only \<open>0\<close> and \<open>False\<close> equal zero.\<close>

fun py_ne_zero :: "pyval \<Rightarrow> bool" where
  "py_ne_zero (PInt i) = (i \<noteq> 0)"
| "py_ne_zero (PBool b) = b"
| "py_ne_zero _ = True"

text \<open>Decimal rendering of integers, as \<^verbatim>\<open>str\<close> gives it.\<close>

definition digit :: "nat \<Rightarrow> char" where
  "digit n = ''0123456789'' ! n"

function str_nat :: "nat \<Rightarrow> string" where
  "str_nat n = (if n < 10 then [digit n] else str_nat (n div 10) @ [digit (n mod 10)])"
  by pat_completeness auto
termination
  by (relation "measure id") auto

declare str_nat.simps [simp del]

definition str_int :: "int \<Rightarrow> string" where
  "str_int i = (if i < 0 then CHR ''-'' # str_nat (nat (- i)) else str_nat (nat i))"

text \<open>
  \<^verbatim>\<open>str(x)\<close> on the scalar values. The text Python prints for a list or a
  dictionary is not modelled.
\<close>

fun py_str :: "pyval \<Rightarrow> string option" where
  "py_str (PStr s) = Some s"
| "py_str (PInt i) = Some (str_int i)"
| "py_str (PBool b) = Some (if b then ''True'' else ''False'')"
| "py_str PNone = Some ''None''"
| "py_str (PList xs) = None"
| "py_str (PDict kvs) = None"

section \<open>The data store\<close>

text \<open>
  Modelled from the spec: the model classes \<^verbatim>\<open>Question\<close> and \<^verbatim>\<open>Category\<close>
  (\<^verbatim>\<open>models.py\<close>) are not among the sources. Section 3 of the specification gives a
  question an id, a question text, an answer text, a category reference and an integer
  difficulty, and a category an id and a type. The category reference is kept as text:
  the quiz handler compares the column with \<^verbatim>\<open>str(...)\<close> of the requested id, and
  the tests create questions with the category \<^verbatim>\<open>'1'\<close>. A table is the list of its
  rows in the order the database returns them when no ordering is asked for.
\<close>

record question =
  q_id :: int
  q_question :: string
  q_answer :: string
  q_category :: string
  q_difficulty :: int

record category =
  c_id :: int
  c_type :: string

record db =
  questions_table :: "question list"
  categories_table :: "category list"

text \<open>
  Modelled from the spec: \<^verbatim>\<open>format()\<close> of a question, "each formatted as
  {id, question, answer, category, difficulty}".
\<close>

definition format_question :: "question \<Rightarrow> pyval" where
  "format_question q =
     PDict [(PStr ''id'', PInt (q_id q)),
            (PStr ''question'', PStr (q_question q)),
            (PStr ''answer'', PStr (q_answer q)),
            (PStr ''category'', PStr (q_category q)),
            (PStr ''difficulty'', PInt (q_difficulty q))]"

text \<open>\<^verbatim>\<open>Question.query.order_by(Question.id).all()\<close>\<close>

definition order_by_id :: "question list \<Rightarrow> question list" where
  "order_by_id qs = sort_key q_id qs"

text \<open>
  \<^verbatim>\<open>Question.question.contains(term)\<close> is SQLAlchemy's operator for
  \<^verbatim>\<open>question LIKE '%' || term || '%'\<close>; the term is passed on as it is, so the
  wildcards in it stay wildcards. \<open>like\<close> is the LIKE of PostgreSQL, the database of
  the test suite: \<^verbatim>\<open>%\<close> stands for any run of characters, \<^verbatim>\<open>_\<close> for one
  character, a backslash makes the next character literal, every other character stands
  for itself, and upper and lower case differ. (A pattern ending in a lone backslash is
  rejected by the database; \<open>contains\<close> never builds one, since its pattern ends in
  the \<^verbatim>\<open>%\<close> it appends.)
\<close>

fun like :: "string \<Rightarrow> string \<Rightarrow> bool" where
  "like [] s = (s = [])"
| "like (p # ps) s =
     (if p = CHR ''%'' then
        (like ps s \<or> (case s of [] \<Rightarrow> False | c # t \<Rightarrow> like (p # ps) t))
      else if p = CHR ''_'' then
        (case s of [] \<Rightarrow> False | c # t \<Rightarrow> like ps t)
      else if p = CHR 0x5C then
        (case ps of
           [] \<Rightarrow> False
         | e # ps' \<Rightarrow> (case s of [] \<Rightarrow> False | c # t \<Rightarrow> c = e \<and> like ps' t))
      else
        (case s of [] \<Rightarrow> False | c # t \<Rightarrow> c = p \<and> like ps t))"

definition contains :: "string \<Rightarrow> string \<Rightarrow> bool" where
  "contains column term = like (CHR ''%'' # term @ [CHR ''%'']) column"

text \<open>
  The category dictionary the handlers build:
  \<^verbatim>\<open>for cat in all_categories: categories_returned[cat['id']] = cat['type']\<close>,
  where \<^verbatim>\<open>cat\<close> is a formatted category, which holds the row's id and its type
  under these two keys (section 4.2 of the specification). An assignment to a key that
  is already there replaces its value in place.
\<close>

definition categories_returned :: "category list \<Rightarrow> (pyval \<times> pyval) list" where
  "categories_returned cats =
     foldl (\<lambda>d cat. AList.update (PInt (c_id cat)) (PStr (c_type cat)) d) [] cats"

section \<open>Pagination helper\<close>

definition QUESTIONS_PER_PAGE :: int where
  "QUESTIONS_PER_PAGE = 10"

text \<open>
  \<^verbatim>\<open>request.args.get('page', 1, type=int)\<close>: the argument \<open>page_arg\<close> is the
  integer the query parameter holds, \<open>None\<close> when the parameter is absent or is not
  an integer, in which case the default 1 is taken.
\<close>

definition paginate_questions :: "int option \<Rightarrow> question list \<Rightarrow> pyval list" where
  "paginate_questions page_arg selection =
     (let page = (case page_arg of None \<Rightarrow> 1 | Some p \<Rightarrow> p);
          start = (page - 1) * QUESTIONS_PER_PAGE;
          end' = start + QUESTIONS_PER_PAGE;
          questions = map format_question selection
      in py_slice questions start end')"

section \<open>Error mapper\<close>

text \<open>
  \<^verbatim>\<open>getErrorMessage(error, default_text)\<close>. The argument \<open>description\<close> is
  \<^verbatim>\<open>error.description\<close>: \<open>Some d\<close> after \<^verbatim>\<open>abort(code, d)\<close> and \<open>None\<close>
  after \<^verbatim>\<open>abort(code)\<close>, where the framework fills in its own text for the code.
  Subscripting text raises TypeError, the one exception the function catches.
\<close>

definition getErrorMessage :: "pyval option \<Rightarrow> string \<Rightarrow> exn + pyval" where
  "getErrorMessage description default_text =
     (case description of
        None \<Rightarrow> Inr (PStr default_text)
      | Some d \<Rightarrow>
          (case py_getitem d ''message'' of
             Inr m \<Rightarrow> Inr m
           | Inl TypeError \<Rightarrow> Inr (PStr default_text)
           | Inl e \<Rightarrow> Inl e))"

definition envelope :: "int \<Rightarrow> pyval \<Rightarrow> pyval \<times> int" where
  "envelope code message =
     (PDict [(PStr ''success'', PBool False),
             (PStr ''error'', PInt code),
             (PStr ''message'', message)], code)"

definition bad_request :: "pyval option \<Rightarrow> exn + pyval \<times> int" where
  "bad_request description =
     (case getErrorMessage description ''bad request'' of
        Inl e \<Rightarrow> Inl e
      | Inr m \<Rightarrow> Inr (envelope 400 m))"

definition ressource_not_found :: "pyval option \<Rightarrow> exn + pyval \<times> int" where
  "ressource_not_found description =
     (case getErrorMessage description ''resource not found'' of
        Inl e \<Rightarrow> Inl e
      | Inr m \<Rightarrow> Inr (envelope 404 m))"

definition method_not_allowed :: "pyval option \<Rightarrow> exn + pyval \<times> int" where
  "method_not_allowed description = Inr (envelope 405 (PStr ''method not allowed''))"

definition unprocessable :: "pyval option \<Rightarrow> exn + pyval \<times> int" where
  "unprocessable description =
     (case getErrorMessage description ''unprocessable'' of
        Inl e \<Rightarrow> Inl e
      | Inr m \<Rightarrow> Inr (envelope 422 m))"

definition internal_server_error :: "pyval option \<Rightarrow> exn + pyval \<times> int" where
  "internal_server_error description = Inr (envelope 500 (PStr ''internal server error''))"

text \<open>
  The registrations \<^verbatim>\<open>@app.errorhandler(code)\<close>: the handler that answers an
  \<^verbatim>\<open>abort(code, description)\<close>, \<open>None\<close> for a code without one.
\<close>

definition errorhandler :: "int \<Rightarrow> pyval option \<Rightarrow> (exn + pyval \<times> int) option" where
  "errorhandler code description =
     (if code = 400 then Some (bad_request description)
      else if code = 404 then Some (ressource_not_found description)
      else if code = 405 then Some (method_not_allowed description)
      else if code = 422 then Some (unprocessable description)
      else if code = 500 then Some (internal_server_error description)
      else None)"

text \<open>The description \<^verbatim>\<open>{'message': text}\<close> the handlers abort with.\<close>

definition message :: "string \<Rightarrow> pyval" where
  "message text = PDict [(PStr ''message'', PStr text)]"

section \<open>Category handler\<close>

text \<open>GET /categories\<close>

definition get_all_categories :: "db \<Rightarrow> failure + pyval" where
  "get_all_categories d =
     (let categories = categories_table d
      in if categories = [] then Inl (Abort 405 None)
         else Inr (PDict [(PStr ''success'', PBool True),
                          (PStr ''categories'', PDict (categories_returned categories))]))"

section \<open>Question handlers\<close>

text \<open>
  Modelled from the spec: the constructor \<^verbatim>\<open>Question(...)\<close> and \<^verbatim>\<open>insert()\<close>
  of \<^verbatim>\<open>models.py\<close>, which is not among the sources. "Insert a new Question row; any
  insertion failure fails unprocessable": the row gets an id no stored row has, and the
  insertion fails (\<open>None\<close>) when a field does not fit its column, which holds text for
  the question and the answer, text or an integer for the category and an integer for the
  difficulty.
\<close>

definition next_id :: "question list \<Rightarrow> int" where
  "next_id qs = fold max (map q_id qs) 0 + 1"

fun category_text :: "pyval \<Rightarrow> string option" where
  "category_text (PStr s) = Some s"
| "category_text (PInt i) = Some (str_int i)"
| "category_text _ = None"

definition insert :: "db \<Rightarrow> pyval \<Rightarrow> pyval \<Rightarrow> pyval \<Rightarrow> pyval \<Rightarrow> (question \<times> db) option" where
  "insert d new_question new_answer new_category new_difficulty =
     (case (new_question, new_answer, category_text new_category, new_difficulty) of
        (PStr qt, PStr an, Some cat, PInt dif) \<Rightarrow>
          (let q = \<lparr>q_id = next_id (questions_table d), q_question = qt, q_answer = an,
                    q_category = cat, q_difficulty = dif\<rparr>
           in Some (q, d\<lparr>questions_table := questions_table d @ [q]\<rparr>))
      | _ \<Rightarrow> None)"

text \<open>POST /questions, the branch taken on a search term (lines 130 to 154).\<close>

definition search_questions :: "db \<Rightarrow> pyval \<Rightarrow> failure + pyval" where
  "search_questions d search_term =
     (case search_term of
        PStr s \<Rightarrow>
          (let questions = filter (\<lambda>q. contains (q_question q) s) (questions_table d)
           in if questions = [] then Inl (Abort 404 None)
              else
                (let questions_found = map format_question questions;
                     selections = order_by_id (questions_table d)
                 in Inr (PDict [(PStr ''success'', PBool True),
                                (PStr ''questions'', PList questions_found),
                                (PStr ''total_questions'', PInt (int (length selections))),
                                (PStr ''current_category'',
                                   PDict (categories_returned (categories_table d)))])))
      | _ \<Rightarrow> Inl Unmodelled)"

text \<open>POST /questions, the branch that creates a question (lines 156 to 199).\<close>

definition create_question ::
  "db \<Rightarrow> (pyval \<times> pyval) list \<Rightarrow> int option \<Rightarrow> (failure + pyval) \<times> db" where
  "create_question d kvs page_arg =
     (let new_question = dict_get kvs ''question'';
          new_answer = dict_get kvs ''answer'';
          new_category = dict_get kvs ''category'';
          new_difficulty = dict_get kvs ''difficulty''
      in if \<not> truthy new_question then
           (Inl (Abort 400 (Some (message ''Question is a mandatory field''))), d)
         else if \<not> truthy new_answer then
           (Inl (Abort 400 (Some (message ''Answer is a mandatory field''))), d)
         else if \<not> truthy new_category then
           (Inl (Abort 400 (Some (message ''Category is a mandatory field''))), d)
         else if \<not> truthy new_difficulty then
           (Inl (Abort 400 (Some (message ''Difficulty is a mandatory field''))), d)
         else
           (case insert d new_question new_answer new_category new_difficulty of
              None \<Rightarrow> (Inl (Abort 422 None), d)
            | Some (question, d') \<Rightarrow>
                (let selections = order_by_id (questions_table d');
                     questions_paginated = paginate_questions page_arg selections
                 in (Inr (PDict [(PStr ''success'', PBool True),
                                 (PStr ''created'', PInt (q_id question)),
                                 (PStr ''questions'', PList questions_paginated),
                                 (PStr ''total_questions'', PInt (int (length selections)))]),
                     d'))))"

text \<open>
  POST /questions. \<open>body\<close> is what \<^verbatim>\<open>request.get_json()\<close> returns, \<open>PNone\<close>
  for a request without a JSON body; the result is the outcome and the store after the
  request.
\<close>

definition create_or_search_questions ::
  "db \<Rightarrow> pyval \<Rightarrow> int option \<Rightarrow> (failure + pyval) \<times> db" where
  "create_or_search_questions d body page_arg =
     (if \<not> truthy body then (Inl (Abort 400 None), d)
      else
        (case body of
           PDict kvs \<Rightarrow>
             (let search_term = dict_get kvs ''searchTerm''
              in if truthy search_term then (search_questions d search_term, d)
                 else create_question d kvs page_arg)
         | _ \<Rightarrow> (Inl (Uncaught AttributeError), d)))"

text \<open>
  \<^verbatim>\<open>Question.query.filter(Question.category == category_id).order_by(Question.id).all()\<close>
  with the integer of the route: the ORM binds the integer as it is, without the
  \<^verbatim>\<open>str(...)\<close> the quiz handler applies, and the statement compares the text
  column with an integer. PostgreSQL, the database of the test suite, has no such
  comparison and rejects the statement when it plans it, whatever the id is and whatever
  the table holds.
\<close>

definition filter_category_integer :: "question list \<Rightarrow> int \<Rightarrow> exn + question list" where
  "filter_category_integer qs category_id = Inl ProgrammingError"

text \<open>
  GET /categories/<int:category_id>/questions. The route converter accepts a run of
  digits only, so the id is a natural number.
\<close>

definition get_questions_from_categories :: "db \<Rightarrow> nat \<Rightarrow> int option \<Rightarrow> failure + pyval" where
  "get_questions_from_categories d category_id page_arg =
     (case (if category_id \<noteq> 0 then
              filter_category_integer (questions_table d) (int category_id)
            else Inr (order_by_id (questions_table d))) of
        Inl e \<Rightarrow> Inl (Uncaught e)
      | Inr selection \<Rightarrow>
          if selection = [] then Inl (Abort 400 None)
          else
            (let questions_paginated = paginate_questions page_arg selection
             in if questions_paginated = [] then
                  Inl (Abort 404 (Some (message ''No questions in selected page.'')))
                else Inr (PDict [(PStr ''success'', PBool True),
                                 (PStr ''questions'', PList questions_paginated),
                                 (PStr ''total_questions'', PInt (int (length selection))),
                                 (PStr ''current_category'', PInt (int category_id))])))"

section \<open>Quiz handler\<close>

text \<open>
  The test \<^verbatim>\<open>current_category and current_category['id']!=0\<close>: the result is the
  id to filter by when the test holds and \<open>None\<close> when it does not; the subscript
  raises on a value without the key.
\<close>

definition category_selected :: "pyval \<Rightarrow> exn + pyval option" where
  "category_selected current_category =
     (if truthy current_category then
        (case py_getitem current_category ''id'' of
           Inl e \<Rightarrow> Inl e
         | Inr i \<Rightarrow> Inr (if py_ne_zero i then Some i else None))
      else Inr None)"

text \<open>The ids of \<^verbatim>\<open>previous_questions\<close> when the value is a list of integers.\<close>

fun as_int :: "pyval \<Rightarrow> int option" where
  "as_int (PInt i) = Some i"
| "as_int _ = None"

fun int_list :: "pyval \<Rightarrow> int list option" where
  "int_list (PList xs) = those (map as_int xs)"
| "int_list _ = None"

text \<open>
  \<^verbatim>\<open>random.randint(a, b)\<close>: an empty range raises ValueError; otherwise the draw
  is decided by the generator's state, the argument \<open>seed\<close>, and every number from
  \<open>a\<close> to \<open>b\<close> is the draw of some seed.
\<close>

definition randint :: "int \<Rightarrow> int \<Rightarrow> nat \<Rightarrow> exn + int" where
  "randint a b seed =
     (if b < a then Inl ValueError else Inr (a + int (seed mod nat (b - a + 1))))"

text \<open>POST /quizzes, the choice of the candidate questions (lines 262 to 285).\<close>

definition quiz_candidates :: "db \<Rightarrow> (pyval \<times> pyval) list \<Rightarrow> failure + question list" where
  "quiz_candidates d kvs =
     (let previous_questions = dict_get kvs ''previous_questions'';
          current_category = dict_get kvs ''quiz_category''
      in if \<not> truthy previous_questions then
           (case category_selected current_category of
              Inl e \<Rightarrow> Inl (Uncaught e)
            | Inr (Some i) \<Rightarrow>
                (case py_str i of
                   None \<Rightarrow> Inl Unmodelled
                 | Some s \<Rightarrow> Inr (filter (\<lambda>q. q_category q = s) (questions_table d)))
            | Inr None \<Rightarrow> Inr (questions_table d))
         else
           (case category_selected current_category of
              Inl e \<Rightarrow> Inl (Uncaught e)
            | Inr (Some i) \<Rightarrow>
                (case py_str i of
                   None \<Rightarrow> Inl Unmodelled
                 | Some s \<Rightarrow>
                     (case int_list previous_questions of
                        None \<Rightarrow> Inl Unmodelled
                      | Some prev \<Rightarrow>
                          Inr (filter (\<lambda>q. q_id q \<notin> set prev)
                                (filter (\<lambda>q. q_category q = s) (questions_table d)))))
            | Inr None \<Rightarrow>
                (case int_list previous_questions of
                   None \<Rightarrow> Inl Unmodelled
                 | Some prev \<Rightarrow> Inr (filter (\<lambda>q. q_id q \<notin> set prev) (questions_table d)))))"

text \<open>POST /quizzes\<close>

definition play_quiz :: "db \<Rightarrow> pyval \<Rightarrow> nat \<Rightarrow> failure + pyval" where
  "play_quiz d body seed =
     (if \<not> truthy body then
        Inl (Abort 400 (Some (message
          ''Please provide a JSON body with previous question Ids and optional category.'')))
      else
        (case body of
           PDict kvs \<Rightarrow>
             (case quiz_candidates d kvs of
                Inl f \<Rightarrow> Inl f
              | Inr questions_raw \<Rightarrow>
                  (let questions_formatted = map format_question questions_raw
                   in case randint 0 (int (length questions_formatted) - 1) seed of
                        Inl e \<Rightarrow> Inl (Uncaught e)
                      | Inr r \<Rightarrow>
                          (case py_index questions_formatted r of
                             Inl e \<Rightarrow> Inl (Uncaught e)
                           | Inr random_question \<Rightarrow>
                               Inr (PDict [(PStr ''success'', PBool True),
                                           (PStr ''question'', random_question)]))))
         | _ \<Rightarrow> Inl (Uncaught AttributeError)))"

section \<open>The specification's words\<close>

text \<open>
  The slice of section 4.1, "from index \<open>a\<close> inclusive to \<open>b\<close> exclusive": the
  elements at those of the indices \<open>a, a + 1, ..., b - 1\<close> that the list has.
\<close>

definition slice_between :: "'a list \<Rightarrow> int \<Rightarrow> int \<Rightarrow> 'a list" where
  "slice_between xs a b =
     map (\<lambda>i. xs ! nat i) (filter (\<lambda>i. 0 \<le> i \<and> i < int (length xs)) [a..b - 1])"

text \<open>
  The mandatory fields of a create request in the order of section 8, each with the name
  the message gives it.
\<close>

definition mandatory_fields :: "(string \<times> string) list" where
  "mandatory_fields =
     [(''question'', ''Question''), (''answer'', ''Answer''),
      (''category'', ''Category''), (''difficulty'', ''Difficulty'')]"

definition first_missing :: "(pyval \<times> pyval) list \<Rightarrow> (string \<times> string) option" where
  "first_missing kvs = find (\<lambda>(key, name). \<not> truthy (dict_get kvs key)) mandatory_fields"


text \<open>
  The selected set of section 4.3, "List by category": every question for the sentinel
  0, the questions whose category equals the id for any other id, by ascending id.
\<close>

definition category_selection :: "db \<Rightarrow> nat \<Rightarrow> question list" where
  "category_selection d category_id =
     sort_key q_id
       (filter (\<lambda>q. category_id = 0 \<or> q_category q = str_nat category_id) (questions_table d))"

text \<open>
  "Case-sensitive substring": the term occurs in the text as a run of consecutive
  characters.
\<close>

definition substring :: "string \<Rightarrow> string \<Rightarrow> bool" where
  "substring term text = (\<exists>i \<in> set [0..<Suc (length text)]. take (length term) (drop i text) = term)"

text \<open>A search term without a character that LIKE reads as a wildcard or an escape.\<close>

definition literal :: "string \<Rightarrow> bool" where
  "literal term = (list_all (\<lambda>c. c \<noteq> CHR ''%'' \<and> c \<noteq> CHR ''_'' \<and> c \<noteq> CHR 0x5C) term)"

section \<open>A small store\<close>

definition science :: category where
  "science = \<lparr>c_id = 1, c_type = ''Science''\<rparr>"

definition art :: category where
  "art = \<lparr>c_id = 2, c_type = ''Art''\<rparr>"

definition organ :: question where
  "organ = \<lparr>q_id = 1, q_question = ''Heaviest human organ?'', q_answer = ''The liver'',
             q_category = ''1'', q_difficulty = 4\<rparr>"

definition half :: question where
  "half = \<lparr>q_id = 2, q_question = ''What is 50% of 8?'', q_answer = ''4'',
            q_category = ''1'', q_difficulty = 1\<rparr>"

definition painter :: question where
  "painter = \<lparr>q_id = 3, q_question = ''Who painted the Mona Lisa?'', q_answer = ''Leonardo'',
               q_category = ''2'', q_difficulty = 2\<rparr>"

definition trivia :: db where
  "trivia = \<lparr>questions_table = [organ, half, painter], categories_table = [science, art]\<rparr>"

definition nothing_stored :: db where
  "nothing_stored = \<lparr>questions_table = [], categories_table = []\<rparr>"

section \<open>Pagination\<close>

lemma slice_between_take_drop:
  "0 \<le> a \<Longrightarrow> slice_between xs a (a + int k) = take k (drop (nat a) xs)"
proof (induction k)
  case 0
  then show ?case by (simp add: slice_between_def)
next
  case (Suc k)
  let ?P = "\<lambda>i. 0 \<le> i \<and> i < int (length xs)"
  let ?f = "\<lambda>i. xs ! nat i"
  have split: "[a..a + int k] = [a..a + int k - 1] @ [a + int k]"
    using upto_rec2 [of a "a + int k"] by simp
  have IH: "map ?f (filter ?P [a..a + int k - 1]) = take k (drop (nat a) xs)"
    using Suc by (simp add: slice_between_def)
  have unfold: "slice_between xs a (a + int (Suc k)) =
      map ?f (filter ?P [a..a + int k - 1]) @ map ?f (filter ?P [a + int k])"
  proof -
    have e: "a + int (Suc k) - 1 = a + int k" by simp
    show ?thesis unfolding slice_between_def e by (subst split) simp
  qed
  show ?case
  proof (cases "k < length (drop (nat a) xs)")
    case True
    then have lt: "a + int k < int (length xs)" using Suc.prems by auto
    have nth: "drop (nat a) xs ! k = xs ! nat (a + int k)"
      using True Suc.prems by (simp add: nat_add_distrib)
    have "map ?f (filter ?P [a + int k]) = [drop (nat a) xs ! k]"
      using lt Suc.prems nth by simp
    then show ?thesis
      unfolding unfold IH using True by (simp add: take_Suc_conv_app_nth)
  next
    case False
    then have "\<not> a + int k < int (length xs)" using Suc.prems by auto
    then have "map ?f (filter ?P [a + int k]) = []" by simp
    then show ?thesis
      unfolding unfold IH using False by simp
  qed
qed

lemma slice_between_negative: "b \<le> 0 \<Longrightarrow> slice_between xs a b = []"
  by (auto simp: slice_between_def filter_empty_conv)

lemma py_slice_page:
  "0 \<le> a \<Longrightarrow> py_slice xs a (a + int k) = take k (drop (nat a) xs)"
  by (simp add: py_slice_def slice_bound_def Let_def nat_add_distrib min_def)

lemma paginate_questions_take_drop:
  "1 \<le> p \<Longrightarrow>
     paginate_questions (Some p) selection =
       take 10 (drop (nat ((p - 1) * 10)) (map format_question selection))"
  using py_slice_page [of "(p - 1) * 10" "map format_question selection" 10]
  by (simp add: paginate_questions_def QUESTIONS_PER_PAGE_def)

text \<open>
  C8. For a page number \<open>p \<ge> 0\<close> the helper returns the formatted records at the
  indices from \<open>(p - 1) * 10\<close> inclusive to \<open>p * 10\<close> exclusive, which is the empty
  list when \<open>(p - 1) * 10\<close> is at or beyond the length of the list; without a page
  parameter it returns what page 1 returns. The helper is a function of its two
  arguments and has no state to change.
\<close>

theorem paginate_questions_slice:
  "0 \<le> p \<Longrightarrow>
     paginate_questions (Some p) selection =
       slice_between (map format_question selection) ((p - 1) * 10) (p * 10)
   \<and> (int (length selection) \<le> (p - 1) * 10 \<longrightarrow> paginate_questions (Some p) selection = [])
   \<and> paginate_questions None selection = paginate_questions (Some 1) selection"
proof -
  assume p: "0 \<le> p"
  let ?L = "map format_question selection"
  have eq: "paginate_questions (Some p) selection = slice_between ?L ((p - 1) * 10) (p * 10)"
  proof (cases "p = 0")
    case True
    then show ?thesis
      by (simp add: paginate_questions_def QUESTIONS_PER_PAGE_def py_slice_def slice_bound_def
          slice_between_negative)
  next
    case False
    with p have a: "0 \<le> (p - 1) * 10" by simp
    have b: "p * 10 = (p - 1) * 10 + int 10" by simp
    show ?thesis
      unfolding b slice_between_take_drop [OF a]
      using py_slice_page [OF a, of ?L 10]
      by (simp add: paginate_questions_def QUESTIONS_PER_PAGE_def)
  qed
  have empty:
    "int (length selection) \<le> (p - 1) * 10 \<longrightarrow> paginate_questions (Some p) selection = []"
  proof
    assume len: "int (length selection) \<le> (p - 1) * 10"
    then have a: "0 \<le> (p - 1) * 10" by linarith
    have b: "p * 10 = (p - 1) * 10 + int 10" by simp
    have "slice_between ?L ((p - 1) * 10) (p * 10) = []"
      unfolding b slice_between_take_drop [OF a] using len by simp
    with eq show "paginate_questions (Some p) selection = []" by simp
  qed
  have dflt: "paginate_questions None selection = paginate_questions (Some 1) selection"
    by (simp add: paginate_questions_def)
  from eq empty dflt show ?thesis by blast
qed

theorem paginate_questions_slice_witness:
  "(0::int) \<le> 2 \<and> int (length [organ]) \<le> (2 - 1) * 10
   \<and> paginate_questions (Some 2) [organ] = []
   \<and> paginate_questions None [organ] = paginate_questions (Some 1) [organ]"
proof -
  have h: "(0::int) \<le> 2" by simp
  have l: "int (length [organ]) \<le> (2 - 1) * 10" by simp
  from paginate_questions_slice [OF h, of "[organ]"] h l show ?thesis by blast
qed

section \<open>The quiz\<close>

lemma those_as_int: "those (map as_int pl) = Some prev \<Longrightarrow> pl = map PInt prev"
proof (induction pl arbitrary: prev)
  case Nil
  then show ?case by simp
next
  case (Cons x pl)
  then show ?case
    by (cases x) (auto split: option.splits)
qed

lemma int_list_Some: "int_list v = Some prev \<Longrightarrow> v = PList (map PInt prev)"
  by (cases v) (auto dest: those_as_int)

lemma int_list_map: "int_list (PList (map PInt prev)) = Some prev"
  by (induction prev) auto

lemma quiz_candidates_unseen:
  assumes "quiz_candidates d kvs = Inr cands"
    and "dict_get kvs ''previous_questions'' = PList pl"
    and "pl \<noteq> []"
    and "q \<in> set cands"
  shows "q \<in> set (questions_table d) \<and> PInt (q_id q) \<notin> set pl"
proof -
  have t: "truthy (dict_get kvs ''previous_questions'')" using assms(2,3) by simp
  from assms(1) t have "\<exists>prev. int_list (dict_get kvs ''previous_questions'') = Some prev
      \<and> set cands \<subseteq> {q \<in> set (questions_table d). q_id q \<notin> set prev}"
    by (auto simp: quiz_candidates_def Let_def split: sum.splits option.splits)
  then obtain prev where prev: "int_list (dict_get kvs ''previous_questions'') = Some prev"
    and sub: "set cands \<subseteq> {q \<in> set (questions_table d). q_id q \<notin> set prev}"
    by blast
  from prev assms(2) have "pl = map PInt prev" by (simp add: those_as_int)
  with sub assms(4) show ?thesis by auto
qed

lemma randint_range: "randint a b seed = Inr r \<Longrightarrow> a \<le> r \<and> r \<le> b"
proof -
  assume h: "randint a b seed = Inr r"
  then have ab: "a \<le> b" and r: "r = a + int (seed mod nat (b - a + 1))"
    by (auto simp: randint_def split: if_splits)
  have "seed mod nat (b - a + 1) < nat (b - a + 1)" using ab by simp
  with ab r show ?thesis by linarith
qed

lemma py_index_mem: "py_index xs i = Inr x \<Longrightarrow> x \<in> set xs"
  by (auto simp: py_index_def Let_def split: if_splits)

lemma play_quiz_Inr:
  assumes "play_quiz d (PDict kvs) seed = Inr resp"
  shows "\<exists>cands q. quiz_candidates d kvs = Inr cands \<and> q \<in> set cands
           \<and> resp = PDict [(PStr ''success'', PBool True), (PStr ''question'', format_question q)]"
  using assms
  by (auto simp: play_quiz_def Let_def split: if_splits sum.splits dest!: py_index_mem)

text \<open>
  C1. When the body of a POST /quizzes request gives a non-empty list as
  \<^verbatim>\<open>previous_questions\<close> and the handler returns, the question it returns is a
  stored question whose id is not an element of that list, whatever the request says
  about the category.
\<close>

theorem play_quiz_unseen:
  assumes "play_quiz d (PDict kvs) seed = Inr resp"
    and "dict_get kvs ''previous_questions'' = PList pl"
    and "pl \<noteq> []"
  shows "\<exists>q. q \<in> set (questions_table d) \<and> PInt (q_id q) \<notin> set pl
           \<and> resp = PDict [(PStr ''success'', PBool True), (PStr ''question'', format_question q)]"
proof -
  from play_quiz_Inr [OF assms(1)] obtain cands q where
    c: "quiz_candidates d kvs = Inr cands" and q: "q \<in> set cands"
    and r: "resp = PDict [(PStr ''success'', PBool True), (PStr ''question'', format_question q)]"
    by blast
  from quiz_candidates_unseen [OF c assms(2,3) q] r show ?thesis by blast
qed


theorem play_quiz_unseen_witness:
  "play_quiz trivia (PDict [(PStr ''previous_questions'', PList [PInt 1, PInt 2])]) 5 =
     Inr (PDict [(PStr ''success'', PBool True), (PStr ''question'', format_question painter)])
   \<and> [PInt 1, PInt 2] \<noteq> []
   \<and> PInt (q_id painter) \<notin> set [PInt 1, PInt 2]"
proof -
  let ?kvs = "[(PStr ''previous_questions'', PList [PInt 1, PInt 2])]"
  let ?resp = "PDict [(PStr ''success'', PBool True), (PStr ''question'', format_question painter)]"
  have run: "play_quiz trivia (PDict ?kvs) 5 = Inr ?resp"
    by code_simp
  have prev: "dict_get ?kvs ''previous_questions'' = PList [PInt 1, PInt 2]"
    by (simp add: dict_get_def)
  have ne: "[PInt 1, PInt 2] \<noteq> []" by simp
  from play_quiz_unseen [OF run prev ne] obtain q where
    q: "PInt (q_id q) \<notin> set [PInt 1, PInt 2]" and "?resp = PDict [(PStr ''success'', PBool True), (PStr ''question'', format_question q)]"
    by blast
  then have "q_id q = q_id painter" by (simp add: format_question_def)
  with q run ne show ?thesis by simp
qed

text \<open>
  C2 as stated fails for the string. The category id \<^verbatim>\<open>"0"\<close> is not the
  integer 0 the handler tests for: the candidates are the questions of category "0",
  here none of the three stored questions, and the request fails.
\<close>

theorem quiz_category_string_zero_counterexample:
  "quiz_candidates trivia [(PStr ''quiz_category'', PDict [(PStr ''id'', PStr ''0'')])] = Inr []
   \<and> questions_table trivia = [organ, half, painter]
   \<and> play_quiz trivia (PDict [(PStr ''quiz_category'', PDict [(PStr ''id'', PStr ''0'')])]) 0 =
       Inl (Uncaught ValueError)"
  by code_simp

text \<open>
  C2, amended. A \<^verbatim>\<open>quiz_category\<close> whose id is the integer 0 means any
  category: the candidates are all questions when no previous questions are given, and
  all questions whose id is not among the previous questions when they are.
\<close>

theorem quiz_category_zero_any:
  assumes "dict_get kvs ''quiz_category'' = PDict c"
    and "map_of c (PStr ''id'') = Some (PInt 0)"
  shows "(\<not> truthy (dict_get kvs ''previous_questions'') \<longrightarrow>
            quiz_candidates d kvs = Inr (questions_table d))
       \<and> (dict_get kvs ''previous_questions'' = PList (map PInt prev) \<and> prev \<noteq> [] \<longrightarrow>
            quiz_candidates d kvs = Inr (filter (\<lambda>q. q_id q \<notin> set prev) (questions_table d)))"
proof -
  have "c \<noteq> []" using assms(2) by auto
  then have sel: "category_selected (dict_get kvs ''quiz_category'') = Inr None"
    using assms by (simp add: category_selected_def py_getitem_def)
  show ?thesis
    by (auto simp: quiz_candidates_def sel int_list_map simp del: int_list.simps)
qed

theorem quiz_category_zero_any_witness:
  "quiz_candidates trivia [(PStr ''quiz_category'', PDict [(PStr ''id'', PInt 0)])] =
     Inr [organ, half, painter]
   \<and> quiz_candidates trivia [(PStr ''previous_questions'', PList [PInt 2]),
                              (PStr ''quiz_category'', PDict [(PStr ''id'', PInt 0)])] =
     Inr [organ, painter]"
proof -
  let ?c = "[(PStr ''id'', PInt 0)]"
  let ?k1 = "[(PStr ''quiz_category'', PDict ?c)]"
  let ?k2 = "[(PStr ''previous_questions'', PList [PInt 2]), (PStr ''quiz_category'', PDict ?c)]"
  have c: "map_of ?c (PStr ''id'') = Some (PInt 0)" by simp
  have k1: "dict_get ?k1 ''quiz_category'' = PDict ?c" by (simp add: dict_get_def)
  have k2: "dict_get ?k2 ''quiz_category'' = PDict ?c" by (simp add: dict_get_def)
  have p1: "\<not> truthy (dict_get ?k1 ''previous_questions'')" by (simp add: dict_get_def)
  have p2: "dict_get ?k2 ''previous_questions'' = PList (map PInt [2]) \<and> [2::int] \<noteq> []"
    by (simp add: dict_get_def)
  have a: "quiz_candidates trivia ?k1 = Inr (questions_table trivia)"
    using quiz_category_zero_any [OF k1 c, where d = trivia] p1 by blast
  have b: "quiz_candidates trivia ?k2 = Inr (filter (\<lambda>q. q_id q \<notin> set [2]) (questions_table trivia))"
    using quiz_category_zero_any [OF k2 c, where d = trivia and prev = "[2]"] p2 by blast
  show ?thesis
    unfolding a b by (simp add: trivia_def organ_def half_def painter_def)
qed

text \<open>
  C3 as stated fails in two ways. With every stored question among the previous ones
  the candidates are none, and the handler ends in the ValueError of the random draw on
  the empty range from 0 to -1: the list is never subscripted, and no index is out
  of range. And for the body \<^verbatim>\<open>{}\<close> on an empty store the candidates would be none
  as well, but the guard on the body answers with 400 before they are looked for.
\<close>

theorem play_quiz_no_candidates_counterexample:
  "quiz_candidates trivia [(PStr ''previous_questions'', PList [PInt 3, PInt 2, PInt 1])] = Inr []
   \<and> play_quiz trivia (PDict [(PStr ''previous_questions'', PList [PInt 3, PInt 2, PInt 1])]) 0 =
       Inl (Uncaught ValueError)
   \<and> play_quiz trivia (PDict [(PStr ''previous_questions'', PList [PInt 3, PInt 2, PInt 1])]) 0 \<noteq>
       Inl (Uncaught IndexError)
   \<and> quiz_candidates nothing_stored [] = Inr []
   \<and> play_quiz nothing_stored (PDict []) 0 =
       Inl (Abort 400 (Some (message
         ''Please provide a JSON body with previous question Ids and optional category.'')))"
  by code_simp

text \<open>
  C3, amended. When the body of a POST /quizzes request is a non-empty JSON object and
  its candidate questions are none, the random draw is made on an empty range and raises
  ValueError before the list is subscripted: the handler ends in that uncaught exception
  for every state of the generator and does not answer with success and a null question.
\<close>

theorem play_quiz_no_candidates:
  assumes "kvs \<noteq> []" and "quiz_candidates d kvs = Inr []"
  shows "play_quiz d (PDict kvs) seed = Inl (Uncaught ValueError)
       \<and> play_quiz d (PDict kvs) seed \<noteq>
           Inr (PDict [(PStr ''success'', PBool True), (PStr ''question'', PNone)])"
  using assms by (simp add: play_quiz_def randint_def)

theorem play_quiz_no_candidates_witness:
  "[(PStr ''previous_questions'', PList [PInt 1, PInt 2, PInt 3])] \<noteq> []
   \<and> quiz_candidates trivia [(PStr ''previous_questions'', PList [PInt 1, PInt 2, PInt 3])] = Inr []
   \<and> play_quiz trivia (PDict [(PStr ''previous_questions'', PList [PInt 1, PInt 2, PInt 3])]) 7 =
       Inl (Uncaught ValueError)"
proof -
  let ?kvs = "[(PStr ''previous_questions'', PList [PInt 1, PInt 2, PInt 3])]"
  have ne: "?kvs \<noteq> []" by simp
  have c: "quiz_candidates trivia ?kvs = Inr []" by code_simp
  from play_quiz_no_candidates [OF ne c, of 7] ne c show ?thesis by blast
qed

section \<open>The error mapper\<close>

lemma getErrorMessage_KeyError:
  "map_of kvs (PStr ''message'') = None \<Longrightarrow>
     getErrorMessage (Some (PDict kvs)) default_text = Inl KeyError"
  by (simp add: getErrorMessage_def py_getitem_def)

lemma getErrorMessage_message:
  "getErrorMessage (Some (message text)) default_text = Inr (PStr text)"
  by (simp add: getErrorMessage_def py_getitem_def message_def)

lemma errorhandler_400_plain:
  "errorhandler 400 None = Some (Inr (envelope 400 (PStr ''bad request'')))"
  by (simp add: errorhandler_def bad_request_def getErrorMessage_def)

lemma errorhandler_400_message:
  "errorhandler 400 (Some (message text)) = Some (Inr (envelope 400 (PStr text)))"
  by (simp add: errorhandler_def bad_request_def getErrorMessage_message)

lemma errorhandler_404_plain:
  "errorhandler 404 None = Some (Inr (envelope 404 (PStr ''resource not found'')))"
  by (simp add: errorhandler_def ressource_not_found_def getErrorMessage_def)

lemma errorhandler_404_message:
  "errorhandler 404 (Some (message text)) = Some (Inr (envelope 404 (PStr text)))"
  by (simp add: errorhandler_def ressource_not_found_def getErrorMessage_message)

lemma errorhandler_405:
  "errorhandler 405 description = Some (Inr (envelope 405 (PStr ''method not allowed'')))"
  by (simp add: errorhandler_def method_not_allowed_def)




section \<open>Searching questions\<close>

lemma like_percent_only: "like [CHR ''%''] s"
  by (induction s) auto

lemma like_percent:
  "like (CHR ''%'' # ps) s \<longleftrightarrow> (\<exists>xs r. s = xs @ r \<and> like ps r)"
proof (induction s)
  case Nil
  then show ?case by simp
next
  case (Cons c t)
  have "like (CHR ''%'' # ps) (c # t) \<longleftrightarrow> like ps (c # t) \<or> like (CHR ''%'' # ps) t"
    by simp
  also have "\<dots> \<longleftrightarrow> like ps (c # t) \<or> (\<exists>xs r. t = xs @ r \<and> like ps r)"
    using Cons.IH by simp
  also have "\<dots> \<longleftrightarrow> (\<exists>xs r. c # t = xs @ r \<and> like ps r)"
  proof
    assume "like ps (c # t) \<or> (\<exists>xs r. t = xs @ r \<and> like ps r)"
    then show "\<exists>xs r. c # t = xs @ r \<and> like ps r"
    proof
      assume "like ps (c # t)"
      then have "c # t = [] @ (c # t) \<and> like ps (c # t)" by simp
      then show ?thesis by blast
    next
      assume "\<exists>xs r. t = xs @ r \<and> like ps r"
      then obtain xs r where "t = xs @ r" "like ps r" by blast
      then have "c # t = (c # xs) @ r \<and> like ps r" by simp
      then show ?thesis by blast
    qed
  next
    assume "\<exists>xs r. c # t = xs @ r \<and> like ps r"
    then obtain xs r where e: "c # t = xs @ r" and l: "like ps r" by blast
    show "like ps (c # t) \<or> (\<exists>xs r. t = xs @ r \<and> like ps r)"
    proof (cases xs)
      case Nil
      with e l show ?thesis by simp
    next
      case (Cons x xs')
      with e have "t = xs' @ r" by simp
      with l show ?thesis by blast
    qed
  qed
  finally show ?case .
qed

lemma like_literal:
  "literal t \<Longrightarrow> like (t @ ps) s \<longleftrightarrow> (\<exists>r. s = t @ r \<and> like ps r)"
proof (induction t arbitrary: s)
  case Nil
  then show ?case by simp
next
  case (Cons c t)
  then have c: "c \<noteq> CHR ''%''" "c \<noteq> CHR ''_''" "c \<noteq> CHR 0x5C" and t: "literal t"
    by (simp_all add: literal_def)
  show ?case
  proof (cases s)
    case Nil
    with c show ?thesis by simp
  next
    case (Cons x s')
    with c Cons.IH [OF t, of s'] show ?thesis by auto
  qed
qed

lemma substring_iff: "substring t s \<longleftrightarrow> (\<exists>xs ys. s = xs @ t @ ys)"
proof
  assume "substring t s"
  then obtain i where "i \<in> set [0..<Suc (length s)]" and e: "take (length t) (drop i s) = t"
    unfolding substring_def by blast
  define ys where "ys = drop (length t) (drop i s)"
  have d: "drop i s = t @ ys"
    unfolding ys_def using append_take_drop_id [of "length t" "drop i s"] e by metis
  have "s = take i s @ drop i s" by (rule append_take_drop_id [symmetric])
  then have "s = take i s @ t @ ys" unfolding d .
  then show "\<exists>xs ys. s = xs @ t @ ys" by blast
next
  assume "\<exists>xs ys. s = xs @ t @ ys"
  then obtain xs ys where s: "s = xs @ t @ ys" by blast
  then have "length xs \<in> set [0..<Suc (length s)]"
    and "take (length t) (drop (length xs) s) = t"
    by (simp_all del: upt_Suc)
  then show "substring t s" unfolding substring_def by blast
qed

lemma contains_literal:
  assumes "literal t"
  shows "contains s t \<longleftrightarrow> substring t s"
proof -
  have "contains s t \<longleftrightarrow> (\<exists>xs r. s = xs @ r \<and> like (t @ [CHR ''%'']) r)"
    unfolding contains_def by (rule like_percent)
  also have "\<dots> \<longleftrightarrow> (\<exists>xs r. s = xs @ r \<and> (\<exists>ys. r = t @ ys))"
    unfolding like_literal [OF assms] using like_percent_only by simp
  also have "\<dots> \<longleftrightarrow> (\<exists>xs ys. s = xs @ t @ ys)"
    by blast
  finally show ?thesis unfolding substring_iff .
qed

text \<open>
  For a search term without wildcard and escape characters the search is the substring
  search of section 4.3: the matches unpaginated, 404 without a description when there
  are none, the count of all stored questions, the category dictionary under
  \<^verbatim>\<open>current_category\<close>.
\<close>

lemma search_questions_literal:
  assumes "map_of kvs (PStr ''searchTerm'') = Some (PStr s)" and "s \<noteq> []" and "literal s"
  shows "create_or_search_questions d (PDict kvs) page_arg =
     (let found = filter (\<lambda>q. substring s (q_question q)) (questions_table d)
      in if found = [] then Inl (Abort 404 None)
         else Inr (PDict [(PStr ''success'', PBool True),
                          (PStr ''questions'', PList (map format_question found)),
                          (PStr ''total_questions'', PInt (int (length (questions_table d)))),
                          (PStr ''current_category'',
                             PDict (categories_returned (categories_table d)))]),
      d)"
proof -
  have kvs: "kvs \<noteq> []" using assms(1) by auto
  have st: "dict_get kvs ''searchTerm'' = PStr s" using assms(1) by (simp add: dict_get_def)
  have f: "filter (\<lambda>q. contains (q_question q) s) (questions_table d) =
           filter (\<lambda>q. substring s (q_question q)) (questions_table d)"
    using contains_literal [OF assms(3)] by simp
  show ?thesis
    using kvs assms(2)
    by (simp add: create_or_search_questions_def st search_questions_def f Let_def order_by_id_def)
qed


text \<open>
  C5. The claim: a search returns exactly the questions whose text has the search term
  as a substring. The code at the search term \<^verbatim>\<open>%\<close>: all three questions of the
  store are returned, with the total count 3 and the category dictionary under
  \<^verbatim>\<open>current_category\<close>, while the term is a substring of one question only.
\<close>

theorem search_questions_wildcard:
  "create_or_search_questions trivia (PDict [(PStr ''searchTerm'', PStr ''%'')]) None =
     (Inr (PDict
        [(PStr ''success'', PBool True),
         (PStr ''questions'',
            PList [format_question organ, format_question half, format_question painter]),
         (PStr ''total_questions'', PInt 3),
         (PStr ''current_category'', PDict [(PInt 1, PStr ''Science''), (PInt 2, PStr ''Art'')])]),
      trivia)
   \<and> filter (\<lambda>q. substring ''%'' (q_question q)) (questions_table trivia) = [half]"
  by code_simp

section \<open>Creating a question\<close>

text \<open>
  C6 as stated fails for the empty JSON object: all four fields are absent, the first
  being the question, but the guard on the body answers before any field is looked at,
  with a plain 400 whose message is the fallback text.
\<close>

theorem create_question_empty_object_counterexample:
  "first_missing [] = Some (''question'', ''Question'')
   \<and> create_or_search_questions trivia (PDict []) None = (Inl (Abort 400 None), trivia)
   \<and> errorhandler 400 None = Some (Inr (envelope 400 (PStr ''bad request'')))"
  by (simp add: first_missing_def mandatory_fields_def dict_get_def create_or_search_questions_def
      errorhandler_400_plain)

text \<open>
  C6, amended. For a request whose body is a non-empty JSON object without a non-empty
  search term, in which one of the fields question, answer, category, difficulty is
  absent or falsy, the handler fails with 400 and the message "<Field> is a mandatory
  field" for the first such field in that order, and the store is unchanged.
\<close>

theorem create_question_mandatory_fields:
  assumes "kvs \<noteq> []"
    and "\<not> truthy (dict_get kvs ''searchTerm'')"
    and "first_missing kvs = Some (key, name)"
  shows "create_or_search_questions d (PDict kvs) page_arg =
           (Inl (Abort 400 (Some (message (name @ '' is a mandatory field'')))), d)
       \<and> errorhandler 400 (Some (message (name @ '' is a mandatory field''))) =
           Some (Inr (envelope 400 (PStr (name @ '' is a mandatory field''))))"
proof -
  have "create_or_search_questions d (PDict kvs) page_arg = create_question d kvs page_arg"
    using assms(1,2) by (simp add: create_or_search_questions_def)
  moreover have "create_question d kvs page_arg =
      (Inl (Abort 400 (Some (message (name @ '' is a mandatory field'')))), d)"
    using assms(3)
    by (auto simp: first_missing_def mandatory_fields_def create_question_def Let_def
        split: if_splits)
  ultimately show ?thesis by (simp add: errorhandler_400_message)
qed

theorem create_question_mandatory_fields_witness:
  "create_or_search_questions trivia
     (PDict [(PStr ''question'', PStr ''Is this a test question?''),
             (PStr ''answer'', PStr ''''),
             (PStr ''difficulty'', PInt 1)]) None =
     (Inl (Abort 400 (Some (message ''Answer is a mandatory field''))), trivia)
   \<and> errorhandler 400 (Some (message ''Answer is a mandatory field'')) =
       Some (Inr (envelope 400 (PStr ''Answer is a mandatory field'')))"
proof -
  let ?kvs = "[(PStr ''question'', PStr ''Is this a test question?''),
               (PStr ''answer'', PStr ''''),
               (PStr ''difficulty'', PInt 1)]"
  have ne: "?kvs \<noteq> []" by simp
  have st: "\<not> truthy (dict_get ?kvs ''searchTerm'')" by (simp add: dict_get_def)
  have fm: "first_missing ?kvs = Some (''answer'', ''Answer'')"
    by (simp add: first_missing_def mandatory_fields_def dict_get_def)
  from create_question_mandatory_fields [OF ne st fm, of trivia None] show ?thesis by simp
qed

text \<open>
  C10. A body whose \<^verbatim>\<open>searchTerm\<close> is the empty string is not searched for: the
  request is handled as the create branch handles it, and so fails with 400 and
  "Question is a mandatory field" when the question is absent or falsy.
\<close>

theorem empty_search_term_creates:
  assumes "map_of kvs (PStr ''searchTerm'') = Some (PStr '''')"
  shows "create_or_search_questions d (PDict kvs) page_arg = create_question d kvs page_arg
       \<and> (\<not> truthy (dict_get kvs ''question'') \<longrightarrow>
            create_or_search_questions d (PDict kvs) page_arg =
              (Inl (Abort 400 (Some (message ''Question is a mandatory field''))), d)
          \<and> errorhandler 400 (Some (message ''Question is a mandatory field'')) =
              Some (Inr (envelope 400 (PStr ''Question is a mandatory field''))))"
proof -
  have "kvs \<noteq> []" using assms by auto
  moreover have "dict_get kvs ''searchTerm'' = PStr ''''" using assms by (simp add: dict_get_def)
  ultimately have e: "create_or_search_questions d (PDict kvs) page_arg = create_question d kvs page_arg"
    by (simp add: create_or_search_questions_def)
  show ?thesis
    unfolding e by (simp add: create_question_def Let_def errorhandler_400_message)
qed

theorem empty_search_term_creates_witness:
  "create_or_search_questions trivia (PDict [(PStr ''searchTerm'', PStr '''')]) None =
     (Inl (Abort 400 (Some (message ''Question is a mandatory field''))), trivia)
   \<and> create_or_search_questions trivia
       (PDict [(PStr ''searchTerm'', PStr ''''), (PStr ''question'', PStr ''Q?''),
               (PStr ''answer'', PStr ''A''), (PStr ''category'', PStr ''1''),
               (PStr ''difficulty'', PInt 1)]) None =
     create_question trivia
       [(PStr ''searchTerm'', PStr ''''), (PStr ''question'', PStr ''Q?''),
        (PStr ''answer'', PStr ''A''), (PStr ''category'', PStr ''1''),
        (PStr ''difficulty'', PInt 1)] None"
proof -
  let ?k1 = "[(PStr ''searchTerm'', PStr '''')]"
  let ?k2 = "[(PStr ''searchTerm'', PStr ''''), (PStr ''question'', PStr ''Q?''),
        (PStr ''answer'', PStr ''A''), (PStr ''category'', PStr ''1''),
        (PStr ''difficulty'', PInt 1)]"
  have m1: "map_of ?k1 (PStr ''searchTerm'') = Some (PStr '''')" by simp
  have m2: "map_of ?k2 (PStr ''searchTerm'') = Some (PStr '''')" by simp
  have q: "\<not> truthy (dict_get ?k1 ''question'')" by (simp add: dict_get_def)
  from empty_search_term_creates [OF m1, of trivia None] q
    empty_search_term_creates [OF m2, of trivia None]
  show ?thesis by blast
qed

section \<open>Questions of a category\<close>

text \<open>
  For the sentinel 0 the handler does what section 4.3 says: the selection is every
  question by ascending id; an empty selection fails with 400 "bad request", a selection
  whose requested page is empty with 404 and the message "No questions in selected
  page.", and otherwise the answer carries the page, the size of the selection and the
  id.
\<close>

lemma get_questions_all_categories:
  "sorted (map q_id (category_selection d 0))
   \<and> mset (category_selection d 0) = mset (questions_table d)
   \<and> (category_selection d 0 = [] \<longrightarrow>
         get_questions_from_categories d 0 page_arg = Inl (Abort 400 None))
   \<and> (category_selection d 0 \<noteq> []
        \<and> paginate_questions page_arg (category_selection d 0) = [] \<longrightarrow>
         get_questions_from_categories d 0 page_arg =
           Inl (Abort 404 (Some (message ''No questions in selected page.''))))
   \<and> (category_selection d 0 \<noteq> []
        \<and> paginate_questions page_arg (category_selection d 0) \<noteq> [] \<longrightarrow>
         get_questions_from_categories d 0 page_arg =
           Inr (PDict [(PStr ''success'', PBool True),
                       (PStr ''questions'',
                          PList (paginate_questions page_arg (category_selection d 0))),
                       (PStr ''total_questions'', PInt (int (length (category_selection d 0)))),
                       (PStr ''current_category'', PInt 0)]))
   \<and> errorhandler 400 None = Some (Inr (envelope 400 (PStr ''bad request'')))
   \<and> errorhandler 404 (Some (message ''No questions in selected page.'')) =
       Some (Inr (envelope 404 (PStr ''No questions in selected page.'')))"
proof -
  let ?sel = "category_selection d 0"
  have sel: "order_by_id (questions_table d) = ?sel"
    by (simp add: category_selection_def order_by_id_def)
  have run: "get_questions_from_categories d 0 page_arg =
      (if ?sel = [] then Inl (Abort 400 None)
       else if paginate_questions page_arg ?sel = [] then
         Inl (Abort 404 (Some (message ''No questions in selected page.'')))
       else Inr (PDict [(PStr ''success'', PBool True),
                        (PStr ''questions'', PList (paginate_questions page_arg ?sel)),
                        (PStr ''total_questions'', PInt (int (length ?sel))),
                        (PStr ''current_category'', PInt 0)]))"
    unfolding get_questions_from_categories_def by (simp add: sel Let_def)
  have s: "sorted (map q_id ?sel)" by (simp add: category_selection_def)
  have m: "mset ?sel = mset (questions_table d)" by (simp add: category_selection_def)
  have r1: "?sel = [] \<longrightarrow> get_questions_from_categories d 0 page_arg = Inl (Abort 400 None)"
    by (simp add: run)
  have r2: "?sel \<noteq> [] \<and> paginate_questions page_arg ?sel = [] \<longrightarrow>
      get_questions_from_categories d 0 page_arg =
        Inl (Abort 404 (Some (message ''No questions in selected page.'')))"
    by (simp add: run)
  have r3: "?sel \<noteq> [] \<and> paginate_questions page_arg ?sel \<noteq> [] \<longrightarrow>
      get_questions_from_categories d 0 page_arg =
        Inr (PDict [(PStr ''success'', PBool True),
                    (PStr ''questions'', PList (paginate_questions page_arg ?sel)),
                    (PStr ''total_questions'', PInt (int (length ?sel))),
                    (PStr ''current_category'', PInt 0)])"
    by (simp add: run)
  from s m r1 r2 r3 errorhandler_400_plain errorhandler_404_message
  show ?thesis by blast
qed

lemma get_questions_from_categories_nonzero:
  "category_id \<noteq> 0 \<Longrightarrow>
     get_questions_from_categories d category_id page_arg = Inl (Uncaught ProgrammingError)"
  by (simp add: get_questions_from_categories_def filter_category_integer_def)


section \<open>Listing the categories\<close>

lemma categories_returned_foldl_keys:
  "fst ` set (foldl (\<lambda>d cat. AList.update (PInt (c_id cat)) (PStr (c_type cat)) d) acc cats) =
     fst ` set acc \<union> (\<lambda>c. PInt (c_id c)) ` set cats"
  by (induction cats arbitrary: acc) (auto simp: dom_update)

lemma categories_returned_foldl_distinct:
  "distinct (map fst acc) \<Longrightarrow>
     distinct (map fst (foldl (\<lambda>d cat. AList.update (PInt (c_id cat)) (PStr (c_type cat)) d) acc cats))"
  by (induction cats arbitrary: acc) (auto simp: distinct_update)

lemma categories_returned_foldl_lookup:
  "distinct (map c_id cats) \<Longrightarrow> c \<in> set cats \<Longrightarrow>
     map_of (foldl (\<lambda>d cat. AList.update (PInt (c_id cat)) (PStr (c_type cat)) d) acc cats)
       (PInt (c_id c)) = Some (PStr (c_type c))"
proof (induction cats arbitrary: acc)
  case Nil
  then show ?case by simp
next
  case (Cons a cats)
  show ?case
  proof (cases "c \<in> set cats")
    case True
    with Cons show ?thesis by simp
  next
    case False
    with Cons.prems have ca: "c = a" and notin: "c_id a \<notin> c_id ` set cats" by auto
    have keep: "\<And>acc'. PInt (c_id a) \<notin> (\<lambda>c. PInt (c_id c)) ` set cats \<Longrightarrow>
        map_of (foldl (\<lambda>d cat. AList.update (PInt (c_id cat)) (PStr (c_type cat)) d) acc' cats)
          (PInt (c_id a)) = map_of acc' (PInt (c_id a))"
    proof (induction cats)
      case Nil
      then show ?case by simp
    next
      case (Cons b cats)
      then show ?case by (simp add: update_conv')
    qed
    have "PInt (c_id a) \<notin> (\<lambda>c. PInt (c_id c)) ` set cats" using notin by auto
    from keep [OF this] ca show ?thesis by (simp add: update_conv')
  qed
qed

text \<open>
  C9. GET /categories fails with 405, rendered as "method not allowed", exactly when
  the categories table is empty; otherwise it returns success and a dictionary whose
  keys are the ids of the stored categories, each id once, and which maps the id of every
  stored category to its type when ids identify categories.
\<close>

theorem get_all_categories_contract:
  "((\<exists>description. get_all_categories d = Inl (Abort 405 description)) \<longleftrightarrow> categories_table d = [])
   \<and> errorhandler 405 None = Some (Inr (envelope 405 (PStr ''method not allowed'')))
   \<and> (categories_table d \<noteq> [] \<longrightarrow>
        (\<exists>m. get_all_categories d =
                Inr (PDict [(PStr ''success'', PBool True), (PStr ''categories'', PDict m)])
           \<and> distinct (map fst m)
           \<and> fst ` set m = (\<lambda>c. PInt (c_id c)) ` set (categories_table d)
           \<and> (distinct (map c_id (categories_table d)) \<longrightarrow>
                (\<forall>c \<in> set (categories_table d).
                   map_of m (PInt (c_id c)) = Some (PStr (c_type c))))))"
proof -
  let ?m = "categories_returned (categories_table d)"
  have a: "(\<exists>description. get_all_categories d = Inl (Abort 405 description)) \<longleftrightarrow>
             categories_table d = []"
    by (simp add: get_all_categories_def Let_def)
  have b: "categories_table d \<noteq> [] \<Longrightarrow> get_all_categories d =
             Inr (PDict [(PStr ''success'', PBool True), (PStr ''categories'', PDict ?m)])"
    by (simp add: get_all_categories_def Let_def)
  have c: "distinct (map fst ?m)"
    unfolding categories_returned_def by (rule categories_returned_foldl_distinct) simp
  have k: "fst ` set ?m = (\<lambda>c. PInt (c_id c)) ` set (categories_table d)"
    unfolding categories_returned_def categories_returned_foldl_keys by simp
  have l: "distinct (map c_id (categories_table d)) \<longrightarrow>
             (\<forall>c \<in> set (categories_table d). map_of ?m (PInt (c_id c)) = Some (PStr (c_type c)))"
    unfolding categories_returned_def using categories_returned_foldl_lookup by blast
  from a b c k l errorhandler_405 [of None] show ?thesis by blast
qed

theorem get_all_categories_contract_witness:
  "get_all_categories trivia =
     Inr (PDict [(PStr ''success'', PBool True),
                 (PStr ''categories'', PDict [(PInt 1, PStr ''Science''), (PInt 2, PStr ''Art'')])])
   \<and> get_all_categories (trivia\<lparr>categories_table := []\<rparr>) = Inl (Abort 405 None)"
proof -
  have ne: "categories_table trivia \<noteq> []" by (simp add: trivia_def)
  have dist: "distinct (map c_id (categories_table trivia))"
    by (simp add: trivia_def science_def art_def)
  from get_all_categories_contract [of trivia] ne dist obtain m where
    r: "get_all_categories trivia =
          Inr (PDict [(PStr ''success'', PBool True), (PStr ''categories'', PDict m)])"
    by blast
  have "get_all_categories trivia =
     Inr (PDict [(PStr ''success'', PBool True),
                 (PStr ''categories'', PDict [(PInt 1, PStr ''Science''), (PInt 2, PStr ''Art'')])])"
    by code_simp
  moreover have "categories_table (trivia\<lparr>categories_table := []\<rparr>) = []" by simp
  with get_all_categories_contract [of "trivia\<lparr>categories_table := []\<rparr>"]
  obtain description where
    "get_all_categories (trivia\<lparr>categories_table := []\<rparr>) = Inl (Abort 405 description)"
    by blast
  then have "get_all_categories (trivia\<lparr>categories_table := []\<rparr>) = Inl (Abort 405 None)"
    by (simp add: get_all_categories_def)
  ultimately show ?thesis using r by simp
qed

end
